theory Spec2Isabelle
  imports Main
begin

section \<open>Exceptions and Python values\<close>

text \<open>
  The repository is a Telegram bot written against the python-telegram-bot framework.
  Two kinds of exception can leave its code: the \<^verbatim>\<open>AttributeError\<close> Python raises
  when an attribute is read from \<^verbatim>\<open>None\<close> (or from an object that lacks it), and
  what the framework raises: \<^verbatim>\<open>InvalidToken\<close> when an application is built with an
  empty token, and whatever the reply call raises (network failure, rejected request,
  ...), kept opaque here and told apart by a number.
\<close>

datatype error = AttributeError | InvalidToken | TelegramError nat

text \<open>
  Truth value of an \<^verbatim>\<open>Optional[bool]\<close>, as \<^verbatim>\<open>not x\<close> and \<^verbatim>\<open>if x\<close> compute it:
  \<^verbatim>\<open>None\<close> and \<^verbatim>\<open>False\<close> are falsy.
\<close>

definition truthy :: "bool option \<Rightarrow> bool" where
  "truthy v = (case v of None \<Rightarrow> False | Some b \<Rightarrow> b)"

text \<open>
  The f-string \<^verbatim>\<open>f'{text}'\<close> on an \<^verbatim>\<open>Optional[str]\<close>: a string formats to itself,
  \<^verbatim>\<open>None\<close> to the four characters \<^verbatim>\<open>None\<close>.
\<close>

definition fstring :: "string option \<Rightarrow> string" where
  "fstring v = (case v of None \<Rightarrow> ''None'' | Some s \<Rightarrow> s)"


section \<open>The framework's objects, as far as the code reads them\<close>

text \<open>
  \<^verbatim>\<open>telegram.User\<close>: the code reads \<^verbatim>\<open>is_premium\<close> only, which the framework declares
  optional (absent is \<^verbatim>\<open>None\<close>).
\<close>

record User =
  user_id :: int
  is_premium :: "bool option"

text \<open>
  \<^verbatim>\<open>telegram.Message\<close>: the chat it belongs to, its text (\<^verbatim>\<open>None\<close> for a photo, a
  sticker, ...) and the entities the platform found in the text, each with its kind,
  where it starts and how long it is. The only entity kind that matters here is a bot
  command. The fields \<^verbatim>\<open>type\<close>, \<^verbatim>\<open>length\<close> and \<^verbatim>\<open>text\<close> are \<open>entity_type\<close>,
  \<open>entity_length\<close> and \<open>message_text\<close>, the names being taken in Isabelle.
\<close>

datatype MessageEntityType = BOT_COMMAND | OTHER_ENTITY

record MessageEntity =
  entity_type :: MessageEntityType
  offset :: nat
  entity_length :: nat

record Message =
  chat_id :: int
  message_text :: "string option"
  entities :: "MessageEntity list"

text \<open>
  \<^verbatim>\<open>telegram.Update\<close>: the code reads \<^verbatim>\<open>effective_user\<close> and \<^verbatim>\<open>message\<close>, both
  optional in the framework. \<^verbatim>\<open>message\<close> is a new message; an edit of a message
  arrives as \<^verbatim>\<open>edited_message\<close>, with \<^verbatim>\<open>message\<close> absent. The framework's handlers
  and filters look at \<^verbatim>\<open>effective_message\<close>, the one of the two that is present
  (the other kinds of update the framework knows, channel posts among them, are not
  modelled).
\<close>

record Update =
  effective_user :: "User option"
  message :: "Message option"
  edited_message :: "Message option"

definition effective_message :: "Update \<Rightarrow> Message option" where
  "effective_message upd =
     (case message upd of Some m \<Rightarrow> Some m | None \<Rightarrow> edited_message upd)"

text \<open>
  Sending. The bot's outbox is the list of replies sent so far, each a chat and a text.
  The platform is a parameter \<open>api\<close>: for a chat and a text it says whether the send
  raises (\<open>Some e\<close>) or goes through (\<open>None\<close>). \<^verbatim>\<open>Message.reply_text(text)\<close> sends
  \<^verbatim>\<open>text\<close> to the chat of the message; nothing is sent when it raises.
\<close>

type_synonym reply = "int \<times> string"
type_synonym api = "int \<Rightarrow> string \<Rightarrow> error option"

definition reply_text :: "api \<Rightarrow> Message \<Rightarrow> string \<Rightarrow> reply list \<Rightarrow> (error + unit) \<times> reply list" where
  "reply_text api m txt sent =
     (case api (chat_id m) txt of
        Some e \<Rightarrow> (Inl e, sent)
      | None \<Rightarrow> (Inr (), sent @ [(chat_id m, txt)]))"

text \<open>Two platforms for examples: one on which every send goes through, one on which
  every send raises.\<close>

definition api_ok :: api where
  "api_ok c t = None"

definition api_down :: api where
  "api_down c t = Some (TelegramError 1)"

text \<open>
  The filters of \<^verbatim>\<open>telegram.ext.filters\<close> that the code combines, with the framework's
  meaning: \<^verbatim>\<open>TEXT\<close> accepts a message whose text is present and not empty;
  \<^verbatim>\<open>COMMAND\<close> accepts a message whose first entity is a bot command at offset 0;
  \<^verbatim>\<open>f & g\<close> and \<^verbatim>\<open>~f\<close> are conjunction and negation.
\<close>

datatype BaseFilter = TEXT | COMMAND | MergedAnd BaseFilter BaseFilter | Inverted BaseFilter

fun check_filter :: "BaseFilter \<Rightarrow> Message \<Rightarrow> bool" where
  "check_filter TEXT m = (case message_text m of None \<Rightarrow> False | Some s \<Rightarrow> s \<noteq> [])"
| "check_filter COMMAND m =
     (case entities m of [] \<Rightarrow> False | e # _ \<Rightarrow> entity_type e = BOT_COMMAND \<and> offset e = 0)"
| "check_filter (MergedAnd f g) m = (check_filter f m \<and> check_filter g m)"
| "check_filter (Inverted f) m = (\<not> check_filter f m)"

text \<open>
  \<^verbatim>\<open>str.lower\<close> on the ASCII letters (a bot command and a bot's user name hold ASCII
  letters, digits and underscores only), and \<^verbatim>\<open>str.split(sep)\<close>.
\<close>

definition lower_char :: "char \<Rightarrow> char" where
  "lower_char c =
     (case map_of (zip ''ABCDEFGHIJKLMNOPQRSTUVWXYZ'' ''abcdefghijklmnopqrstuvwxyz'') c of
        None \<Rightarrow> c
      | Some d \<Rightarrow> d)"

definition lower :: "string \<Rightarrow> string" where
  "lower s = map lower_char s"

fun str_split :: "char \<Rightarrow> string \<Rightarrow> string list" where
  "str_split sep [] = [[]]"
| "str_split sep (c # cs) =
     (if c = sep then [] # str_split sep cs
      else (case str_split sep cs of [] \<Rightarrow> [[c]] | p # ps \<Rightarrow> (c # p) # ps))"

text \<open>
  The test of \<^verbatim>\<open>CommandHandler(c, callback)\<close>, as the framework makes it on a message
  for a bot whose user name is \<open>username\<close>: the first entity is a bot command at offset
  0, the text is not empty, and the command \<^verbatim>\<open>text[1:length]\<close>, cut at "@", is \<open>c\<close>
  and is addressed to this bot or to no bot by name; letter case is ignored.
\<close>

definition check_command :: "string \<Rightarrow> string \<Rightarrow> Message \<Rightarrow> bool" where
  "check_command username c m =
     (case entities m of
        [] \<Rightarrow> False
      | e # _ \<Rightarrow>
          entity_type e = BOT_COMMAND \<and> offset e = 0 \<and>
          (case message_text m of
             None \<Rightarrow> False
           | Some txt \<Rightarrow>
               txt \<noteq> [] \<and>
               (let command = take (entity_length e - 1) (drop 1 txt);
                    command_parts = str_split CHR ''@'' command @ [username]
                in case command_parts of
                     p0 # p1 # _ \<Rightarrow> lower p0 = lower c \<and> lower p1 = lower username
                   | _ \<Rightarrow> False)))"


section \<open>bot/messages.py\<close>

text \<open>
  \<^verbatim>\<open>BaseMessages\<close> is abstract; its two concrete classes are \<^verbatim>\<open>RegularUser\<close> and
  \<^verbatim>\<open>PremiumUser(RegularUser)\<close>. Neither has fields, so an instance is its class.
  \<^verbatim>\<open>PremiumUser\<close> overrides \<^verbatim>\<open>start\<close> and \<^verbatim>\<open>help\<close> and inherits \<^verbatim>\<open>echo\<close>.
  The method \<^verbatim>\<open>help\<close> is named \<open>help_message\<close> here, \<open>help\<close> being a command of
  Isabelle.
\<close>

datatype BaseMessages = RegularUser | PremiumUser

fun start :: "BaseMessages \<Rightarrow> string" where
  "start RegularUser = ''hello!''"
| "start PremiumUser = ''hello!''"

fun help_message :: "BaseMessages \<Rightarrow> string" where
  "help_message RegularUser = ''You need to purchase a subscription''"
| "help_message PremiumUser = ''help mock!''"

fun echo :: "BaseMessages \<Rightarrow> string option \<Rightarrow> string" where
  "echo RegularUser txt = fstring txt"
| "echo PremiumUser txt = fstring txt"  \<comment> \<open>inherited from \<^verbatim>\<open>RegularUser\<close>\<close>

text \<open>
  \<^verbatim>\<open>get_messages(user)\<close>. Its callers pass \<^verbatim>\<open>update.effective_user\<close>, which is
  \<^verbatim>\<open>None\<close> for an update without a sender; \<^verbatim>\<open>user.is_premium\<close> then raises.
\<close>

definition get_messages :: "User option \<Rightarrow> error + BaseMessages" where
  "get_messages usr =
     (case usr of
        None \<Rightarrow> Inl AttributeError
      | Some u \<Rightarrow> if \<not> truthy (is_premium u) then Inr PremiumUser else Inr RegularUser)"


section \<open>bot/handlers.py\<close>

text \<open>
  A handler object has the attributes \<^verbatim>\<open>user\<close>, set to \<^verbatim>\<open>None\<close> by \<^verbatim>\<open>__init__\<close>, and
  \<^verbatim>\<open>messages\<close>, which does not exist until the first call (\<open>None\<close> here). Its class
  decides \<^verbatim>\<open>handle\<close>.
\<close>

record BaseHandler =
  user :: "User option"
  messages :: "BaseMessages option"

datatype handler_class = StartHandler | HelpHandler | EchoHandler

definition init :: BaseHandler where
  "init = \<lparr>user = None, messages = None\<rparr>"

text \<open>
  \<^verbatim>\<open>handle\<close> of the three classes. Python evaluates \<^verbatim>\<open>update.message.reply_text\<close>
  first (an \<^verbatim>\<open>AttributeError\<close> when the update has no message), then the argument
  (\<^verbatim>\<open>self.messages\<close> must exist), then makes the call.
\<close>

fun handle :: "api \<Rightarrow> handler_class \<Rightarrow> BaseHandler \<Rightarrow> Update \<Rightarrow> reply list \<Rightarrow> (error + unit) \<times> reply list" where
  "handle api StartHandler self upd sent =
     (case message upd of
        None \<Rightarrow> (Inl AttributeError, sent)
      | Some m \<Rightarrow>
          (case messages self of
             None \<Rightarrow> (Inl AttributeError, sent)
           | Some ms \<Rightarrow> reply_text api m (start ms) sent))"
| "handle api HelpHandler self upd sent =
     (case message upd of
        None \<Rightarrow> (Inl AttributeError, sent)
      | Some m \<Rightarrow>
          (case messages self of
             None \<Rightarrow> (Inl AttributeError, sent)
           | Some ms \<Rightarrow> reply_text api m (help_message ms) sent))"
| "handle api EchoHandler self upd sent =
     (case message upd of
        None \<Rightarrow> (Inl AttributeError, sent)
      | Some m \<Rightarrow>
          (case messages self of
             None \<Rightarrow> (Inl AttributeError, sent)
           | Some ms \<Rightarrow> reply_text api m (echo ms (message_text m)) sent))"

text \<open>
  \<^verbatim>\<open>BaseHandler.__call__\<close>: store the user, store the provider, handle. An exception
  leaves the method at once; what was stored before it stays on the object. The result
  is the outcome (\<open>Inr ()\<close> for a normal return), the handler object and the outbox.
\<close>

definition call :: "api \<Rightarrow> handler_class \<Rightarrow> BaseHandler \<Rightarrow> Update \<Rightarrow> reply list \<Rightarrow> (error + unit) \<times> BaseHandler \<times> reply list" where
  "call api cls self upd sent =
     (let self1 = self\<lparr>user := effective_user upd\<rparr> in
      case get_messages (user self1) of
        Inl e \<Rightarrow> (Inl e, self1, sent)
      | Inr ms \<Rightarrow>
          (let self2 = self1\<lparr>messages := Some ms\<rparr>;
               (r, sent') = handle api cls self2 upd sent
           in (r, self2, sent')))"

text \<open>
  An application holds the bot token and the registered handlers in registration order:
  the trigger, and the callback (its class and the one object created at registration).
\<close>

datatype trigger = CommandHandler string | MessageHandler BaseFilter

record Application =
  token :: string
  handlers :: "(trigger \<times> handler_class \<times> BaseHandler) list"

definition add_handler :: "Application \<Rightarrow> trigger \<times> handler_class \<times> BaseHandler \<Rightarrow> Application" where
  "add_handler application h = application\<lparr>handlers := handlers application @ [h]\<rparr>"

definition setup_handlers :: "Application \<Rightarrow> Application" where
  "setup_handlers application =
     (let application = add_handler application (CommandHandler ''start'', StartHandler, init);
          application = add_handler application (CommandHandler ''help'', HelpHandler, init)
      in add_handler application
           (MessageHandler (MergedAnd TEXT (Inverted COMMAND)), EchoHandler, init))"

text \<open>
  The triggers under which a callback class is registered.
\<close>

definition triggers_of :: "handler_class \<Rightarrow> Application \<Rightarrow> trigger list" where
  "triggers_of cls application =
     map fst (filter (\<lambda>h. fst (snd h) = cls) (handlers application))"

text \<open>
  The framework's side of an update. A trigger is checked on the effective message of
  the update. \<^verbatim>\<open>Application.process_update\<close> goes through the handlers in registration
  order and calls the callback of the first whose trigger accepts the update, and no
  other; when none accepts, nothing is called. An exception of the callback ends the
  processing of the update (the framework logs it); it is returned here as the outcome.
  \<open>selected\<close> is the class of the callback that is called.
\<close>

fun check_update :: "string \<Rightarrow> trigger \<Rightarrow> Update \<Rightarrow> bool" where
  "check_update username (CommandHandler c) upd =
     (case effective_message upd of None \<Rightarrow> False | Some m \<Rightarrow> check_command username c m)"
| "check_update username (MessageHandler f) upd =
     (case effective_message upd of None \<Rightarrow> False | Some m \<Rightarrow> check_filter f m)"

fun selected :: "string \<Rightarrow> (trigger \<times> handler_class \<times> BaseHandler) list \<Rightarrow> Update \<Rightarrow> handler_class option" where
  "selected username [] upd = None"
| "selected username ((tr, cls, self) # hs) upd =
     (if check_update username tr upd then Some cls else selected username hs upd)"

fun run_handlers :: "api \<Rightarrow> string \<Rightarrow> (trigger \<times> handler_class \<times> BaseHandler) list \<Rightarrow> Update \<Rightarrow> reply list \<Rightarrow> (error + unit) \<times> (trigger \<times> handler_class \<times> BaseHandler) list \<times> reply list" where
  "run_handlers api username [] upd sent = (Inr (), [], sent)"
| "run_handlers api username ((tr, cls, self) # hs) upd sent =
     (if check_update username tr upd
      then (let (r, self', sent') = call api cls self upd sent
            in (r, (tr, cls, self') # hs, sent'))
      else (let (r, hs', sent') = run_handlers api username hs upd sent
            in (r, (tr, cls, self) # hs', sent')))"

definition process_update :: "api \<Rightarrow> string \<Rightarrow> Application \<Rightarrow> Update \<Rightarrow> reply list \<Rightarrow> (error + unit) \<times> Application \<times> reply list" where
  "process_update api username application upd sent =
     (let (r, hs, sent') = run_handlers api username (handlers application) upd sent
      in (r, application\<lparr>handlers := hs\<rparr>, sent'))"


section \<open>main.py\<close>

text \<open>
  The process: its environment, and the names \<^verbatim>\<open>os.getenv\<close> was called with, in
  order. \<^verbatim>\<open>os.getenv(key, default)\<close> returns the variable's value, or the default when
  the variable is not set. \<^verbatim>\<open>load_dotenv()\<close> has run when the module was imported:
  \<open>environ\<close> is the environment as it left it.
\<close>

record process =
  environ :: "string \<rightharpoonup> string"
  getenv_calls :: "string list"

definition getenv :: "string \<Rightarrow> string \<Rightarrow> process \<Rightarrow> string \<times> process" where
  "getenv key dflt p =
     (case environ p key of None \<Rightarrow> dflt | Some v \<Rightarrow> v,
      p\<lparr>getenv_calls := getenv_calls p @ [key]\<rparr>)"

text \<open>
  \<^verbatim>\<open>Application.builder().token(t).build()\<close>: the framework refuses the empty token
  with \<^verbatim>\<open>InvalidToken\<close>; any other token gives an application with no handler yet.
\<close>

definition build :: "string \<Rightarrow> error + Application" where
  "build t = (if t = [] then Inl InvalidToken else Inr \<lparr>token = t, handlers = []\<rparr>)"

text \<open>
  \<^verbatim>\<open>main\<close>, up to the call of \<^verbatim>\<open>run_polling\<close>, the framework's loop: the application
  that is started, or the exception that ends \<^verbatim>\<open>main\<close> before, and the process.
\<close>

definition main :: "process \<Rightarrow> (error + Application) \<times> process" where
  "main p =
     (let (telegram_token, p') = getenv ''TOKEN'' '''' p in
      case build telegram_token of
        Inl e \<Rightarrow> (Inl e, p')
      | Inr application \<Rightarrow> (Inr (setup_handlers application), p'))"


section \<open>Example updates\<close>

text \<open>
  A user who is not premium, in chat 42, writing to the bot "echo_bot": the text
  messages "ping" and "/ hi" (no command: the platform marks no entity), the commands
  "/start", "/help" and "/unknown" (the platform marks the leading command as an
  entity), an edit of "ping", an update with a sender and no message, and an update with
  no sender. A process whose environment sets \<^verbatim>\<open>TOKEN\<close>, the application \<^verbatim>\<open>main\<close>
  starts in it, and a process with an empty environment.
\<close>

definition alice :: User where
  "alice = \<lparr>user_id = 7, is_premium = Some False\<rparr>"

definition ping_message :: Message where
  "ping_message = \<lparr>chat_id = 42, message_text = Some ''ping'', entities = []\<rparr>"

definition slash_message :: Message where
  "slash_message = \<lparr>chat_id = 42, message_text = Some ''/ hi'', entities = []\<rparr>"

definition start_message :: Message where
  "start_message =
     \<lparr>chat_id = 42, message_text = Some ''/start'',
      entities = [\<lparr>entity_type = BOT_COMMAND, offset = 0, entity_length = 6\<rparr>]\<rparr>"

definition help_command_message :: Message where
  "help_command_message =
     \<lparr>chat_id = 42, message_text = Some ''/help'',
      entities = [\<lparr>entity_type = BOT_COMMAND, offset = 0, entity_length = 5\<rparr>]\<rparr>"

definition unknown_message :: Message where
  "unknown_message =
     \<lparr>chat_id = 42, message_text = Some ''/unknown'',
      entities = [\<lparr>entity_type = BOT_COMMAND, offset = 0, entity_length = 8\<rparr>]\<rparr>"

definition ping_update :: Update where
  "ping_update =
     \<lparr>effective_user = Some alice, message = Some ping_message, edited_message = None\<rparr>"

definition slash_update :: Update where
  "slash_update =
     \<lparr>effective_user = Some alice, message = Some slash_message, edited_message = None\<rparr>"

definition start_update :: Update where
  "start_update =
     \<lparr>effective_user = Some alice, message = Some start_message, edited_message = None\<rparr>"

definition help_update :: Update where
  "help_update =
     \<lparr>effective_user = Some alice, message = Some help_command_message,
      edited_message = None\<rparr>"

definition unknown_update :: Update where
  "unknown_update =
     \<lparr>effective_user = Some alice, message = Some unknown_message, edited_message = None\<rparr>"

definition edited_ping_update :: Update where
  "edited_ping_update =
     \<lparr>effective_user = Some alice, message = None, edited_message = Some ping_message\<rparr>"

definition no_message_update :: Update where
  "no_message_update = \<lparr>effective_user = Some alice, message = None, edited_message = None\<rparr>"

definition no_user_update :: Update where
  "no_user_update =
     \<lparr>effective_user = None, message = Some ping_message, edited_message = None\<rparr>"

definition configured :: process where
  "configured = \<lparr>environ = [''TOKEN'' \<mapsto> ''123:abc''], getenv_calls = []\<rparr>"

definition started :: Application where
  "started = setup_handlers \<lparr>token = ''123:abc'', handlers = []\<rparr>"



section \<open>Properties of the message providers\<close>

text \<open>
  C1. A user whose premium flag is false gets the \<^verbatim>\<open>PremiumUser\<close> provider, whose
  help text is "help mock!"; a user whose flag is true gets the \<^verbatim>\<open>RegularUser\<close>
  provider, whose help text is "You need to purchase a subscription".
\<close>

theorem get_messages_by_flag:
  "(is_premium u = Some False \<longrightarrow>
      get_messages (Some u) = Inr PremiumUser \<and>
      map_sum id help_message (get_messages (Some u)) = Inr ''help mock!'') \<and>
   (is_premium u = Some True \<longrightarrow>
      get_messages (Some u) = Inr RegularUser \<and>
      map_sum id help_message (get_messages (Some u)) =
        Inr ''You need to purchase a subscription'')"
  by (simp add: get_messages_def truthy_def)

theorem get_messages_by_flag_witness:
  "get_messages (Some \<lparr>user_id = 7, is_premium = Some False\<rparr>) = Inr PremiumUser \<and>
   map_sum id help_message (get_messages (Some \<lparr>user_id = 7, is_premium = Some False\<rparr>))
     = Inr ''help mock!'' \<and>
   get_messages (Some \<lparr>user_id = 8, is_premium = Some True\<rparr>) = Inr RegularUser \<and>
   map_sum id help_message (get_messages (Some \<lparr>user_id = 8, is_premium = Some True\<rparr>))
     = Inr ''You need to purchase a subscription''"
  using get_messages_by_flag [of "\<lparr>user_id = 7, is_premium = Some False\<rparr>"]
        get_messages_by_flag [of "\<lparr>user_id = 8, is_premium = Some True\<rparr>"]
  by simp

text \<open>
  C2. \<^verbatim>\<open>echo\<close> is the identity on strings, the empty string and strings that start
  with "/" included, for both providers.
\<close>

theorem echo_identity:
  "echo ms (Some s) = s \<and> echo ms (Some []) = [] \<and> echo ms (Some (CHR ''/'' # s)) = CHR ''/'' # s"
  by (cases ms) (simp_all add: fstring_def)

text \<open>
  C3. Whatever the premium flag of the user (true, false or absent), a provider is
  selected and its \<^verbatim>\<open>start\<close> is "hello!".
\<close>

theorem start_hello_any_user:
  "\<exists>ms. get_messages (Some u) = Inr ms \<and> start ms = ''hello!''"
  by (simp add: get_messages_def)

text \<open>
  C7. The two providers agree on \<^verbatim>\<open>start\<close> and on \<^verbatim>\<open>echo\<close> at every argument;
  their \<^verbatim>\<open>help\<close> texts differ.
\<close>

theorem variants_differ_only_in_help:
  "start PremiumUser = start RegularUser \<and>
   echo PremiumUser txt = echo RegularUser txt \<and>
   help_message PremiumUser \<noteq> help_message RegularUser"
  by simp

text \<open>
  C10. A user whose premium flag is absent (\<^verbatim>\<open>None\<close>) is treated as not premium: the
  \<^verbatim>\<open>PremiumUser\<close> provider is selected and help is "help mock!".
\<close>

theorem get_messages_flag_absent:
  "is_premium u = None \<Longrightarrow>
     get_messages (Some u) = Inr PremiumUser \<and>
     map_sum id help_message (get_messages (Some u)) = Inr ''help mock!''"
  by (simp add: get_messages_def truthy_def)

theorem get_messages_flag_absent_witness:
  "get_messages (Some \<lparr>user_id = 9, is_premium = None\<rparr>) = Inr PremiumUser \<and>
   map_sum id help_message (get_messages (Some \<lparr>user_id = 9, is_premium = None\<rparr>))
     = Inr ''help mock!''"
  using get_messages_flag_absent [of "\<lparr>user_id = 9, is_premium = None\<rparr>"]
  by simp


section \<open>Properties of the handlers\<close>

text \<open>What \<^verbatim>\<open>handle\<close> sends is appended to the outbox, whatever the outbox holds.\<close>

lemma handle_sent:
  "handle api cls self upd sent =
     (fst (handle api cls self upd []), sent @ snd (handle api cls self upd []))"
  by (cases cls) (simp_all add: reply_text_def split: option.splits)

text \<open>\<^verbatim>\<open>handle\<close> reads the attribute \<^verbatim>\<open>messages\<close> of the object and no other.\<close>

lemma handle_messages_only:
  "messages self = messages self' \<Longrightarrow> handle api cls self upd sent = handle api cls self' upd sent"
  by (cases cls) (simp_all split: option.splits)

text \<open>
  The application \<^verbatim>\<open>main\<close> starts has the three registrations of \<^verbatim>\<open>setup_handlers\<close>,
  in this order, each with a fresh handler object.
\<close>

lemma started_handlers:
  "fst (main p) = Inr app \<Longrightarrow>
     handlers app =
       [(CommandHandler ''start'', StartHandler, init),
        (CommandHandler ''help'', HelpHandler, init),
        (MessageHandler (MergedAnd TEXT (Inverted COMMAND)), EchoHandler, init)]"
  by (auto simp: main_def getenv_def build_def setup_handlers_def add_handler_def
        split: prod.splits if_splits option.splits)

text \<open>In the example process \<^verbatim>\<open>main\<close> starts the example application.\<close>

lemma main_configured: "fst (main configured) = Inr started"
  by (simp add: main_def getenv_def build_def configured_def started_def)

text \<open>A message that passes a command test passes the filter \<^verbatim>\<open>COMMAND\<close>.\<close>

lemma check_command_COMMAND: "check_command username c m \<Longrightarrow> check_filter COMMAND m"
  by (auto simp: check_command_def split: list.splits)

text \<open>The command tests and filters on the example messages.\<close>

lemma lower_start:
  "lower ''start'' = ''start''" "lower ''help'' = ''help''"
  "lower ''unknown'' = ''unknown''" "lower ''echo_bot'' = ''echo_bot''"
  by (simp_all add: lower_def lower_char_def)

lemma ex_commands:
  "check_command ''echo_bot'' ''start'' start_message"
  "\<not> check_command ''echo_bot'' ''help'' start_message"
  "check_command ''echo_bot'' ''help'' help_command_message"
  "\<not> check_command ''echo_bot'' ''start'' help_command_message"
  "\<not> check_command ''echo_bot'' ''start'' unknown_message"
  "\<not> check_command ''echo_bot'' ''help'' unknown_message"
  "\<not> check_command ''echo_bot'' c ping_message"
  "\<not> check_command ''echo_bot'' c slash_message"
  by (simp_all add: check_command_def start_message_def help_command_message_def
        unknown_message_def ping_message_def slash_message_def lower_start)


text \<open>
  Processing an update calls the callback that \<open>selected\<close> names, on the object
  registered with it, and calls nothing when there is none.
\<close>

lemma run_selected_None:
  "selected username hs upd = None \<Longrightarrow> run_handlers api username hs upd sent = (Inr (), hs, sent)"
  by (induction hs) (auto split: if_splits)



lemma process_selected_None:
  "selected username (handlers app) upd = None \<Longrightarrow>
     fst (process_update api username app upd sent) = Inr () \<and>
     snd (snd (process_update api username app upd sent)) = sent"
  by (simp add: process_update_def run_selected_None)


text \<open>Which callback the started application selects for an update.\<close>

lemma selected_started:
  assumes "fst (main p) = Inr app"
  shows "selected username (handlers app) upd =
     (case effective_message upd of
        None \<Rightarrow> None
      | Some m \<Rightarrow>
          if check_command username ''start'' m then Some StartHandler
          else if check_command username ''help'' m then Some HelpHandler
          else if check_filter TEXT m \<and> \<not> check_filter COMMAND m then Some EchoHandler
          else None)"
  by (simp add: started_handlers [OF assms] split: option.splits)

text \<open>The example application and updates, evaluated.\<close>

lemma started_handlers_ex:
  "handlers started =
       [(CommandHandler ''start'', StartHandler, init),
        (CommandHandler ''help'', HelpHandler, init),
        (MessageHandler (MergedAnd TEXT (Inverted COMMAND)), EchoHandler, init)]"
  using started_handlers [OF main_configured] .

lemma ex_effective:
  "effective_message ping_update = Some ping_message"
  "effective_message slash_update = Some slash_message"
  "effective_message start_update = Some start_message"
  "effective_message help_update = Some help_command_message"
  "effective_message unknown_update = Some unknown_message"
  "effective_message edited_ping_update = Some ping_message"
  "effective_message no_user_update = Some ping_message"
  by (simp_all add: effective_message_def ping_update_def slash_update_def start_update_def
        help_update_def unknown_update_def edited_ping_update_def no_user_update_def)

lemma ex_filters:
  "check_filter TEXT ping_message" "\<not> check_filter COMMAND ping_message"
  "check_filter TEXT slash_message" "\<not> check_filter COMMAND slash_message"
  "check_filter COMMAND start_message" "check_filter COMMAND help_command_message"
  "check_filter COMMAND unknown_message"
  by (simp_all add: ping_message_def slash_message_def start_message_def
        help_command_message_def unknown_message_def)

lemma echo_filter:
  "check_filter (MergedAnd TEXT (Inverted COMMAND)) m =
     (check_filter TEXT m \<and> \<not> check_filter COMMAND m)"
  by simp

lemma ex_selected:
  "selected ''echo_bot'' (handlers started) ping_update = Some EchoHandler"
  "selected ''echo_bot'' (handlers started) slash_update = Some EchoHandler"
  "selected ''echo_bot'' (handlers started) start_update = Some StartHandler"
  "selected ''echo_bot'' (handlers started) help_update = Some HelpHandler"
  "selected ''echo_bot'' (handlers started) unknown_update = None"
  "selected ''echo_bot'' (handlers started) edited_ping_update = Some EchoHandler"
  "selected ''echo_bot'' (handlers started) no_user_update = Some EchoHandler"
  by (simp_all add: started_handlers_ex ex_effective ex_commands ex_filters echo_filter
        del: check_filter.simps)


lemma ex_call:
  "call api_ok EchoHandler init ping_update [] =
     (Inr (), \<lparr>user = Some alice, messages = Some PremiumUser\<rparr>, [(42, ''ping'')])"
  "call api_ok EchoHandler init slash_update [] =
     (Inr (), \<lparr>user = Some alice, messages = Some PremiumUser\<rparr>, [(42, ''/ hi'')])"
  "call api_ok StartHandler init start_update [] =
     (Inr (), \<lparr>user = Some alice, messages = Some PremiumUser\<rparr>, [(42, ''hello!'')])"
  "call api_ok HelpHandler init help_update [] =
     (Inr (), \<lparr>user = Some alice, messages = Some PremiumUser\<rparr>, [(42, ''help mock!'')])"
  "call api_down EchoHandler init ping_update [] =
     (Inl (TelegramError 1), \<lparr>user = Some alice, messages = Some PremiumUser\<rparr>, [])"
  "call api_ok EchoHandler init edited_ping_update [] =
     (Inl AttributeError, \<lparr>user = Some alice, messages = Some PremiumUser\<rparr>, [])"
  "call api_ok EchoHandler init no_user_update [] =
     (Inl AttributeError, \<lparr>user = None, messages = None\<rparr>, [])"
  by (simp_all add: call_def get_messages_def truthy_def reply_text_def fstring_def init_def
        ping_update_def slash_update_def start_update_def help_update_def
        edited_ping_update_def no_user_update_def ping_message_def slash_message_def
        start_message_def help_command_message_def alice_def api_ok_def api_down_def)





text \<open>
  C5, as the claim states it, fails: the filter looks at the entities of the message,
  not at its text. The text "/ hi" begins with "/" and carries no command entity; the
  echo handler is triggered and replies "/ hi".
\<close>

theorem slash_text_triggers_echo:
  "message_text slash_message = Some ''/ hi'' \<and>
   selected ''echo_bot'' (handlers started) slash_update = Some EchoHandler \<and>
   process_update api_ok ''echo_bot'' started slash_update [] =
     (Inr (),
      started\<lparr>handlers :=
        [(CommandHandler ''start'', StartHandler, init),
         (CommandHandler ''help'', HelpHandler, init),
         (MessageHandler (MergedAnd TEXT (Inverted COMMAND)), EchoHandler,
          \<lparr>user = Some alice, messages = Some PremiumUser\<rparr>)]\<rparr>,
      [(42, ''/ hi'')])"
proof -
  have "message_text slash_message = Some ''/ hi''"
    by (simp add: slash_message_def)
  then show ?thesis
    by (simp add: ex_selected process_update_def started_handlers_ex ex_effective
          ex_commands ex_filters echo_filter ex_call del: check_filter.simps)
qed

text \<open>
  C5, amended. The echo handler is registered once, under the filter
  \<^verbatim>\<open>TEXT & ~COMMAND\<close>, and the started application hands it an update exactly when the
  text of the message is present and not empty and the message does not start with a
  bot command entity (its first entity is not a bot command at offset 0). A message
  that starts with such an entity, as "/unknown" does, never reaches the echo handler.
\<close>

theorem echo_selected_iff:
  assumes "fst (main p) = Inr app"
  shows "triggers_of EchoHandler app = [MessageHandler (MergedAnd TEXT (Inverted COMMAND))] \<and>
    (selected username (handlers app) upd = Some EchoHandler) =
      (\<exists>m. effective_message upd = Some m \<and>
           (\<exists>s. message_text m = Some s \<and> s \<noteq> []) \<and>
           \<not> (\<exists>e es. entities m = e # es \<and> entity_type e = BOT_COMMAND \<and> offset e = 0)) \<and>
    (\<forall>m. effective_message upd = Some m \<and>
         (\<exists>e es. entities m = e # es \<and> entity_type e = BOT_COMMAND \<and> offset e = 0) \<longrightarrow>
         selected username (handlers app) upd \<noteq> Some EchoHandler)"
proof -
  have reg: "triggers_of EchoHandler app = [MessageHandler (MergedAnd TEXT (Inverted COMMAND))]"
    by (simp add: triggers_of_def started_handlers [OF assms])
  have text_filter: "check_filter TEXT m = (\<exists>s. message_text m = Some s \<and> s \<noteq> [])" for m
    by (simp split: option.splits)
  have command_filter: "check_filter COMMAND m =
      (\<exists>e es. entities m = e # es \<and> entity_type e = BOT_COMMAND \<and> offset e = 0)" for m
    by (simp split: list.splits)
  have sel: "(selected username (handlers app) upd = Some EchoHandler) =
      (\<exists>m. effective_message upd = Some m \<and> check_filter TEXT m \<and> \<not> check_filter COMMAND m)"
    using check_command_COMMAND [of username "''start''"]
          check_command_COMMAND [of username "''help''"]
    by (auto simp: selected_started [OF assms] simp del: check_filter.simps
          split: option.splits)
  have sel': "(selected username (handlers app) upd = Some EchoHandler) =
      (\<exists>m. effective_message upd = Some m \<and>
           (\<exists>s. message_text m = Some s \<and> s \<noteq> []) \<and>
           \<not> (\<exists>e es. entities m = e # es \<and> entity_type e = BOT_COMMAND \<and> offset e = 0))"
    using sel unfolding text_filter command_filter .
  have no_command: "\<forall>m. effective_message upd = Some m \<and>
         (\<exists>e es. entities m = e # es \<and> entity_type e = BOT_COMMAND \<and> offset e = 0) \<longrightarrow>
         selected username (handlers app) upd \<noteq> Some EchoHandler"
    unfolding sel' by auto
  from reg sel' no_command show ?thesis by (intro conjI)
qed

theorem echo_selected_iff_witness:
  "fst (main configured) = Inr started \<and>
   effective_message unknown_update = Some unknown_message \<and>
   entities unknown_message =
     [\<lparr>entity_type = BOT_COMMAND, offset = 0, entity_length = 8\<rparr>] \<and>
   selected ''echo_bot'' (handlers started) unknown_update \<noteq> Some EchoHandler \<and>
   snd (snd (process_update api_ok ''echo_bot'' started unknown_update [])) = [] \<and>
   selected ''echo_bot'' (handlers started) ping_update = Some EchoHandler"
  using echo_selected_iff [OF main_configured, of "''echo_bot''" unknown_update]
        echo_selected_iff [OF main_configured, of "''echo_bot''" ping_update]
  by (simp add: main_configured ex_selected ex_effective process_selected_None
        unknown_message_def)

text \<open>
  C6, as the claim states it, fails: a call writes the attributes \<^verbatim>\<open>user\<close> and
  \<^verbatim>\<open>messages\<close> of the handler object, which is the one object every later call of
  that handler receives. After a call on "ping" the object is no longer as
  \<^verbatim>\<open>__init__\<close> left it, and after a second call that raises (an update with no sender)
  it still holds the provider the first call stored.
\<close>

theorem handler_state_persists:
  "fst (snd (call api_ok EchoHandler init ping_update [])) =
     \<lparr>user = Some alice, messages = Some PremiumUser\<rparr> \<and>
   fst (snd (call api_ok EchoHandler init ping_update [])) \<noteq> init \<and>
   call api_ok EchoHandler (fst (snd (call api_ok EchoHandler init ping_update [])))
        no_user_update (snd (snd (call api_ok EchoHandler init ping_update []))) =
     (Inl AttributeError, \<lparr>user = None, messages = Some PremiumUser\<rparr>, [(42, ''ping'')])"
  by (simp add: call_def get_messages_def truthy_def reply_text_def fstring_def init_def
        ping_update_def no_user_update_def ping_message_def alice_def api_ok_def)

text \<open>
  C6, amended. A call overwrites the attributes before it reads them: its outcome and
  the replies it sends are those of a call on a fresh handler object with an empty
  outbox, whatever earlier calls left on the object and in the outbox (so a reply depends
  on the call's own update only). What it writes stays on the object: afterwards
  \<^verbatim>\<open>user\<close> is the sender of the update, and \<^verbatim>\<open>messages\<close> is the provider resolved for
  this update, or what it was before when resolving the provider raised.
\<close>

theorem call_independent_of_history:
  "fst (call api cls self upd sent) = fst (call api cls init upd []) \<and>
   snd (snd (call api cls self upd sent)) = sent @ snd (snd (call api cls init upd [])) \<and>
   user (fst (snd (call api cls self upd sent))) = effective_user upd \<and>
   messages (fst (snd (call api cls self upd sent))) =
     (case get_messages (effective_user upd) of
        Inl e \<Rightarrow> messages self
      | Inr ms \<Rightarrow> Some ms)"
proof (cases "get_messages (effective_user upd)")
  case (Inl e)
  then show ?thesis by (simp add: call_def)
next
  case (Inr ms)
  let ?a = "self\<lparr>user := effective_user upd, messages := Some ms\<rparr>"
  let ?b = "init\<lparr>user := effective_user upd, messages := Some ms\<rparr>"
  have same: "handle api cls ?a upd [] = handle api cls ?b upd []"
    by (rule handle_messages_only) simp
  have a: "call api cls self upd sent =
      (fst (handle api cls ?a upd []), ?a, sent @ snd (handle api cls ?a upd []))"
    using Inr handle_sent [of api cls ?a upd sent]
    by (simp add: call_def Let_def split: prod.splits)
  have b: "call api cls init upd [] =
      (fst (handle api cls ?b upd []), ?b, snd (handle api cls ?b upd []))"
    using Inr by (simp add: call_def Let_def split: prod.splits)
  show ?thesis by (simp add: a b same Inr)
qed

text \<open>
  C8. An exception leaves \<^verbatim>\<open>__call__\<close> as it was raised, and nothing is sent: the one
  raised while the provider is resolved; the \<^verbatim>\<open>AttributeError\<close> of an update with no
  message; the one raised by the send itself.
\<close>

theorem exceptions_propagate:
  "(get_messages (effective_user upd) = Inl e \<longrightarrow>
      call api cls self upd sent = (Inl e, self\<lparr>user := effective_user upd\<rparr>, sent)) \<and>
   (get_messages (effective_user upd) = Inr ms \<and> message upd = None \<longrightarrow>
      call api cls self upd sent =
        (Inl AttributeError, self\<lparr>user := effective_user upd, messages := Some ms\<rparr>, sent)) \<and>
   (get_messages (effective_user upd) = Inr ms \<and> message upd = Some m \<and>
    api (chat_id m)
      (case cls of StartHandler \<Rightarrow> start ms | HelpHandler \<Rightarrow> help_message ms
       | EchoHandler \<Rightarrow> echo ms (message_text m)) = Some e \<longrightarrow>
      call api cls self upd sent =
        (Inl e, self\<lparr>user := effective_user upd, messages := Some ms\<rparr>, sent))"
  by (cases cls) (simp_all add: call_def reply_text_def)

theorem exceptions_propagate_witness:
  "get_messages (effective_user no_user_update) = Inl AttributeError \<and>
   call api_ok EchoHandler init no_user_update [] =
     (Inl AttributeError, \<lparr>user = None, messages = None\<rparr>, []) \<and>
   get_messages (effective_user no_message_update) = Inr PremiumUser \<and>
   message no_message_update = None \<and>
   call api_ok StartHandler init no_message_update [] =
     (Inl AttributeError, \<lparr>user = Some alice, messages = Some PremiumUser\<rparr>, []) \<and>
   message ping_update = Some ping_message \<and>
   api_down (chat_id ping_message) (echo PremiumUser (message_text ping_message)) =
     Some (TelegramError 1) \<and>
   call api_down EchoHandler init ping_update [] =
     (Inl (TelegramError 1), \<lparr>user = Some alice, messages = Some PremiumUser\<rparr>, [])"
  using exceptions_propagate [of no_user_update AttributeError api_ok EchoHandler init "[]"]
        exceptions_propagate [of no_message_update _ api_ok StartHandler init "[]" PremiumUser]
        exceptions_propagate [of ping_update "TelegramError 1" api_down EchoHandler init "[]"
          PremiumUser ping_message]
  by (simp add: no_user_update_def no_message_update_def ping_update_def ping_message_def
        alice_def api_down_def init_def get_messages_def truthy_def)


section \<open>Properties of the entry point\<close>



end
